theory Spec2Isabelle
  imports Main
begin

section \<open>JavaScript values\<close>

text \<open>
  The values that travel through \<^verbatim>\<open>server.js\<close> without being computed on: parsed
  JSON bodies, the answers of the external API, the arguments of \<^verbatim>\<open>res.send\<close> and
  \<^verbatim>\<open>res.json\<close>. Numbers are never computed on; only whether a number is zero matters,
  for truthiness. An object is the list of its members in the order they were written; on
  a repeated key the later member wins.
\<close>

datatype json =
    JUndefined
  | JNull
  | JBool bool
  | JNum int
  | JStr string
  | JArr "json list"
  | JObj "(string \<times> json) list"

text \<open>The test JavaScript applies in \<^verbatim>\<open>!x\<close> and \<^verbatim>\<open>x ? a : b\<close>.\<close>

fun truthy :: "json \<Rightarrow> bool" where
  "truthy JUndefined = False"
| "truthy JNull = False"
| "truthy (JBool b) = b"
| "truthy (JNum n) = (n \<noteq> 0)"
| "truthy (JStr s) = (s \<noteq> [])"
| "truthy (JArr xs) = True"
| "truthy (JObj fs) = True"

text \<open>
  What an axios response carries, and the one kind of exception the handlers catch: every
  thrown value has a \<^verbatim>\<open>message\<close>, and only an axios error for an answered request has
  a \<^verbatim>\<open>response\<close>.
\<close>

record axios_response =
  resp_status :: nat
  resp_data :: json

datatype error = Error (message: string) (response: "axios_response option")

definition TypeError :: "string \<Rightarrow> error" where
  "TypeError m = Error m None"

text \<open>
  Member access \<^verbatim>\<open>v.k\<close>, for the member names the handlers read (\<^verbatim>\<open>public_token\<close>,
  \<^verbatim>\<open>access_token\<close>, \<^verbatim>\<open>transactions\<close>): it throws on \<^verbatim>\<open>undefined\<close> and
  \<^verbatim>\<open>null\<close>, and yields \<^verbatim>\<open>undefined\<close> where the member is missing.
\<close>

fun get_prop :: "json \<Rightarrow> string \<Rightarrow> error + json" where
  "get_prop JUndefined k = Inl (TypeError ''Cannot read properties of undefined'')"
| "get_prop JNull k = Inl (TypeError ''Cannot read properties of null'')"
| "get_prop (JObj fs) k = Inr (case map_of (rev fs) k of Some v \<Rightarrow> v | None \<Rightarrow> JUndefined)"
| "get_prop v k = Inr JUndefined"

text \<open>
  \<^verbatim>\<open>s.split(c)\<close> for a one-character separator: every occurrence of the separator ends a
  segment, so the result is never empty and adjacent separators give empty segments.
\<close>

fun split_on :: "char \<Rightarrow> string \<Rightarrow> string list" where
  "split_on c [] = [[]]"
| "split_on c (x # xs) =
     (if x = c then [] # split_on c xs
      else (case split_on c xs of
              [] \<Rightarrow> [[x]]
            | s # ss \<Rightarrow> (x # s) # ss))"

text \<open>\<^verbatim>\<open>xs[i]\<close>: \<^verbatim>\<open>undefined\<close> (here \<open>None\<close>) out of range.\<close>

definition index :: "'a list \<Rightarrow> nat \<Rightarrow> 'a option" where
  "index xs i = (if i < length xs then Some (xs ! i) else None)"

section \<open>The user collection\<close>

text \<open>
  Modelled from the spec: \<^verbatim>\<open>models/User.js\<close>, the schema of the user documents, is not
  among the sources. The record has the five members that \<^verbatim>\<open>server.js\<close> reads and
  writes (spec, section 3): the four strings set at registration and the access token,
  absent (\<^verbatim>\<open>undefined\<close>) until an exchange stores one. The token is kept as the value
  the update was given.
\<close>

record user =
  firstName :: string
  lastName :: string
  email :: string
  password :: string
  accessToken :: json

text \<open>
  Modelled from the spec: the store is an external collaborator, queried and updated by
  email (spec, section 2), and its three operations below are those of the library behind
  \<^verbatim>\<open>models/User.js\<close>. The state a request runs against: the documents of the
  collection in insertion order, whether the store answers (a query on a store that does
  not answer throws, and an outage is taken to last for the whole request), and the
  requests sent to the external API so far.
\<close>

record state =
  users :: "user list"
  connected :: bool
  requests :: "(string \<times> json) list"

definition StoreError :: error where
  "StoreError = Error ''store unavailable'' None"

text \<open>\<^verbatim>\<open>User.findOne({ email })\<close>: the first document with that email, or \<^verbatim>\<open>null\<close>.\<close>

definition findOne :: "state \<Rightarrow> string \<Rightarrow> error + user option" where
  "findOne st e =
     (if connected st then Inr (find (\<lambda>u. email u = e) (users st)) else Inl StoreError)"

text \<open>\<^verbatim>\<open>user.save()\<close> of a new document.\<close>

definition save :: "state \<Rightarrow> user \<Rightarrow> error + state" where
  "save st u =
     (if connected st then Inr (st\<lparr>users := users st @ [u]\<rparr>) else Inl StoreError)"

text \<open>
  \<^verbatim>\<open>User.findOneAndUpdate({ email }, { accessToken }, { new: true })\<close>: the first document
  with that email gets the token and is returned as updated; \<^verbatim>\<open>null\<close> is returned, and
  nothing written, when there is none.
\<close>

fun update_first :: "string \<Rightarrow> json \<Rightarrow> user list \<Rightarrow> user option \<times> user list" where
  "update_first e tok [] = (None, [])"
| "update_first e tok (u # us) =
     (if email u = e then (Some (u\<lparr>accessToken := tok\<rparr>), u\<lparr>accessToken := tok\<rparr> # us)
      else (case update_first e tok us of (r, us') \<Rightarrow> (r, u # us')))"

definition findOneAndUpdate :: "state \<Rightarrow> string \<Rightarrow> json \<Rightarrow> error + (user option \<times> state)" where
  "findOneAndUpdate st e tok =
     (if connected st
      then (case update_first e tok (users st) of (r, us) \<Rightarrow> Inr (r, st\<lparr>users := us\<rparr>))
      else Inl StoreError)"

section \<open>Libraries, configuration, requests and responses\<close>

text \<open>
  The payload \<^verbatim>\<open>login\<close> signs and the handlers read back from \<^verbatim>\<open>req.user\<close>: an object
  with the member \<^verbatim>\<open>email\<close>. No handler reads any other member of a decoded token.
\<close>

datatype claims = Claims (claim_email: string)

text \<open>
  A response is its status and the value handed to \<^verbatim>\<open>res.send\<close> or to \<^verbatim>\<open>res.json\<close>;
  the status is 200 where the code sets none.
\<close>

datatype reply = Send json | SendJson json

record response =
  status :: nat
  sent :: reply

text \<open>
  The third-party functions \<^verbatim>\<open>server.js\<close> calls are parameters: each is the answer the
  library, the external API or the clock gives to that call during the request. A call
  that throws (or a promise that rejects) answers \<open>Inl\<close>. \<^verbatim>\<open>jwt.verify\<close> takes
  \<^verbatim>\<open>undefined\<close> (\<open>None\<close>) as a token too, since the middleware may pass it.
  \<^verbatim>\<open>toISOString\<close> is \<^verbatim>\<open>new Date().toISOString()\<close>. \<^verbatim>\<open>res_send_number s n\<close> is
  what Express answers to \<^verbatim>\<open>res.status(s).send(n)\<close> for a number \<open>n\<close>: Express 4 takes
  a lone number for the status and sends its status text, later versions send the number,
  and the sources do not say which one runs.
\<close>

record lib =
  jwt_sign :: "claims \<Rightarrow> string \<Rightarrow> error + string"
  jwt_verify :: "string option \<Rightarrow> string \<Rightarrow> error + claims"
  bcrypt_hash :: "string \<Rightarrow> nat \<Rightarrow> error + string"
  bcrypt_compare :: "string \<Rightarrow> string \<Rightarrow> error + bool"
  axios_post :: "string \<Rightarrow> json \<Rightarrow> error + axios_response"
  toISOString :: string
  res_send_number :: "nat \<Rightarrow> int \<Rightarrow> response"

record config =
  PLAID_CLIENT_ID :: "string option"
  PLAID_SECRET :: "string option"
  JWT_SECRET :: string

definition PLAID_ENV :: string where
  "PLAID_ENV = ''https://production.plaid.com''"

text \<open>\<^verbatim>\<open>process.env.X\<close> as a value: the string, or \<^verbatim>\<open>undefined\<close> when unset.\<close>

definition env_value :: "string option \<Rightarrow> json" where
  "env_value v = (case v of Some s \<Rightarrow> JStr s | None \<Rightarrow> JUndefined)"

text \<open>
  The parts of an Express request the code reads: \<^verbatim>\<open>req.header('Authorization')\<close>,
  \<^verbatim>\<open>req.body\<close> as parsed, and \<^verbatim>\<open>req.user\<close>, which only the middleware sets.
\<close>

record request =
  header_Authorization :: "string option"
  body :: json
  user :: "claims option"

text \<open>What a middleware did: it ended the request with a response, or it called \<^verbatim>\<open>next()\<close>.\<close>

datatype step = Respond response | Next request

section \<open>The middleware\<close>

definition authenticateJWT :: "lib \<Rightarrow> config \<Rightarrow> request \<Rightarrow> step" where
  "authenticateJWT L C req =
     (case header_Authorization req of
        None \<Rightarrow> Respond \<lparr>status = 401, sent = Send (JStr ''Access denied. No token provided.'')\<rparr>
      | Some token \<Rightarrow>
          if token = []
          then Respond \<lparr>status = 401, sent = Send (JStr ''Access denied. No token provided.'')\<rparr>
          else (case jwt_verify L (index (split_on CHR '' '' token) 1) (JWT_SECRET C) of
                  Inr decoded \<Rightarrow> Next (req\<lparr>user := Some decoded\<rparr>)
                | Inl ex \<Rightarrow> Respond \<lparr>status = 400, sent = Send (JStr ''Invalid token.'')\<rparr>))"

text \<open>
  A route registered as \<^verbatim>\<open>app.get(path, authenticateJWT, handler)\<close>: the handler runs
  only when the middleware calls \<^verbatim>\<open>next()\<close>, on the request the middleware left. The
  handlers are \<^verbatim>\<open>async\<close> functions with a \<^verbatim>\<open>try\<close> around their bodies, so nothing
  they throw comes back to the \<^verbatim>\<open>catch\<close> of the middleware.
\<close>

definition protected ::
  "lib \<Rightarrow> config \<Rightarrow> (request \<Rightarrow> state \<Rightarrow> response \<times> state) \<Rightarrow> request \<Rightarrow> state \<Rightarrow> response \<times> state"
where
  "protected L C handler req st =
     (case authenticateJWT L C req of
        Respond r \<Rightarrow> (r, st)
      | Next req' \<Rightarrow> handler req' st)"

section \<open>Registration, login and profile\<close>

definition server_error :: response where
  "server_error = \<lparr>status = 500, sent = Send (JStr ''Server error.'')\<rparr>"

text \<open>
  \<^verbatim>\<open>POST /signup\<close>, for a body whose four members are strings. The handlers are taken
  one at a time: no other request runs between two steps of one.
\<close>

definition signup ::
  "lib \<Rightarrow> string \<Rightarrow> string \<Rightarrow> string \<Rightarrow> string \<Rightarrow> state \<Rightarrow> response \<times> state"
where
  "signup L first_name last_name email' password' st =
     (case findOne st email' of
        Inl error \<Rightarrow> (server_error, st)
      | Inr (Some userExists) \<Rightarrow>
          (\<lparr>status = 400, sent = Send (JStr ''User already exists.'')\<rparr>, st)
      | Inr None \<Rightarrow>
          (case bcrypt_hash L password' 10 of
             Inl error \<Rightarrow> (server_error, st)
           | Inr hashedPassword \<Rightarrow>
               (case save st \<lparr>firstName = first_name, lastName = last_name, email = email',
                              password = hashedPassword, accessToken = JUndefined\<rparr> of
                  Inl error \<Rightarrow> (server_error, st)
                | Inr st' \<Rightarrow>
                    (\<lparr>status = 200, sent = Send (JStr ''User registered successfully.'')\<rparr>, st'))))"

text \<open>\<^verbatim>\<open>POST /login\<close>, for a body whose two members are strings.\<close>

definition login :: "lib \<Rightarrow> config \<Rightarrow> string \<Rightarrow> string \<Rightarrow> state \<Rightarrow> response \<times> state" where
  "login L C email' password' st =
     (case findOne st email' of
        Inl error \<Rightarrow> (server_error, st)
      | Inr None \<Rightarrow> (\<lparr>status = 400, sent = Send (JStr ''Invalid email or password.'')\<rparr>, st)
      | Inr (Some u) \<Rightarrow>
          (case bcrypt_compare L password' (password u) of
             Inl error \<Rightarrow> (server_error, st)
           | Inr validPassword \<Rightarrow>
               if \<not> validPassword
               then (\<lparr>status = 400, sent = Send (JStr ''Invalid email or password.'')\<rparr>, st)
               else (case jwt_sign L (Claims (email u)) (JWT_SECRET C) of
                       Inl error \<Rightarrow> (server_error, st)
                     | Inr token \<Rightarrow>
                         (\<lparr>status = 200, sent = Send (JObj [(''token'', JStr token)])\<rparr>, st))))"

text \<open>
  The handler of \<^verbatim>\<open>GET /user\<close>. Reading \<^verbatim>\<open>req.user.email\<close> throws when the middleware
  has not set \<^verbatim>\<open>req.user\<close>; the handler's own \<^verbatim>\<open>catch\<close> answers that too.
\<close>

definition get_user :: "request \<Rightarrow> state \<Rightarrow> response \<times> state" where
  "get_user req st =
     (case user req of
        None \<Rightarrow> (server_error, st)
      | Some decoded \<Rightarrow>
          (case findOne st (claim_email decoded) of
             Inl error \<Rightarrow> (server_error, st)
           | Inr None \<Rightarrow> (\<lparr>status = 400, sent = Send (JStr ''User not found.'')\<rparr>, st)
           | Inr (Some u) \<Rightarrow>
               (\<lparr>status = 200,
                 sent = SendJson (JObj [(''firstName'', JStr (firstName u)),
                                        (''lastName'', JStr (lastName u)),
                                        (''email'', JStr (email u))])\<rparr>, st)))"

section \<open>The proxy to the external API\<close>

text \<open>
  \<^verbatim>\<open>res.status(code).send(x)\<close> for a value that is not fixed in the code:
  \<^verbatim>\<open>typeof x === 'number'\<close> is the case Express treats apart; every other value is the
  body of a response with the status set.
\<close>

fun is_number :: "json \<Rightarrow> bool" where
  "is_number (JNum n) = True"
| "is_number v = False"

definition res_send :: "lib \<Rightarrow> nat \<Rightarrow> json \<Rightarrow> response" where
  "res_send L code x =
     (case x of
        JNum n \<Rightarrow> res_send_number L code n
      | _ \<Rightarrow> \<lparr>status = code, sent = Send x\<rparr>)"

text \<open>
  The \<^verbatim>\<open>catch\<close> of the three proxy handlers:
  \<^verbatim>\<open>res.status(500).send(error.response ? error.response.data : 'Internal Server Error')\<close>.
\<close>

definition proxied_error :: "lib \<Rightarrow> error \<Rightarrow> response" where
  "proxied_error L err =
     res_send L 500 (case response err of
                       Some r \<Rightarrow> resp_data r
                     | None \<Rightarrow> JStr ''Internal Server Error'')"

text \<open>\<^verbatim>\<open>await axios.post(url, payload)\<close>: the request is recorded, the answer is the world's.\<close>

definition post :: "lib \<Rightarrow> string \<Rightarrow> json \<Rightarrow> state \<Rightarrow> (error + axios_response) \<times> state" where
  "post L url payload st =
     (axios_post L url payload, st\<lparr>requests := requests st @ [(url, payload)]\<rparr>)"

definition link_token_request :: "config \<Rightarrow> string \<Rightarrow> json" where
  "link_token_request C client_user_id =
     JObj [(''client_id'', env_value (PLAID_CLIENT_ID C)),
           (''secret'', env_value (PLAID_SECRET C)),
           (''user'', JObj [(''client_user_id'', JStr client_user_id)]),
           (''client_name'', JStr ''Your App Name''),
           (''products'', JArr [JStr ''transactions'']),
           (''country_codes'', JArr [JStr ''US'']),
           (''language'', JStr ''en'')]"

definition create_link_token :: "lib \<Rightarrow> config \<Rightarrow> request \<Rightarrow> state \<Rightarrow> response \<times> state" where
  "create_link_token L C req st =
     (case user req of
        None \<Rightarrow> (proxied_error L (TypeError ''Cannot read properties of undefined''), st)
      | Some decoded \<Rightarrow>
          (case post L (PLAID_ENV @ ''/link/token/create'')
                  (link_token_request C (claim_email decoded)) st of
             (Inl error, st1) \<Rightarrow> (proxied_error L error, st1)
           | (Inr res, st1) \<Rightarrow> (\<lparr>status = 200, sent = SendJson (resp_data res)\<rparr>, st1)))"

definition exchange_request :: "config \<Rightarrow> json \<Rightarrow> json" where
  "exchange_request C public_token =
     JObj [(''client_id'', env_value (PLAID_CLIENT_ID C)),
           (''secret'', env_value (PLAID_SECRET C)),
           (''public_token'', public_token)]"

definition exchange_public_token :: "lib \<Rightarrow> config \<Rightarrow> request \<Rightarrow> state \<Rightarrow> response \<times> state" where
  "exchange_public_token L C req st =
     (case get_prop (body req) ''public_token'' of
        Inl error \<Rightarrow> (proxied_error L error, st)
      | Inr public_token \<Rightarrow>
          (case post L (PLAID_ENV @ ''/item/public_token/exchange'')
                  (exchange_request C public_token) st of
             (Inl error, st1) \<Rightarrow> (proxied_error L error, st1)
           | (Inr res, st1) \<Rightarrow>
               (case user req of
                  None \<Rightarrow> (proxied_error L (TypeError ''Cannot read properties of undefined''), st1)
                | Some decoded \<Rightarrow>
                    (case get_prop (resp_data res) ''access_token'' of
                       Inl error \<Rightarrow> (proxied_error L error, st1)
                     | Inr access_token \<Rightarrow>
                         (case findOneAndUpdate st1 (claim_email decoded) access_token of
                            Inl error \<Rightarrow> (proxied_error L error, st1)
                          | Inr (None, st2) \<Rightarrow>
                              (\<lparr>status = 400, sent = Send (JStr ''User not found.'')\<rparr>, st2)
                          | Inr (Some u, st2) \<Rightarrow>
                              (\<lparr>status = 200,
                                sent = SendJson (JObj [(''message'',
                                         JStr ''Token exchange successful'')])\<rparr>, st2))))))"

text \<open>\<^verbatim>\<open>new Date().toISOString().split('T')[0]\<close>.\<close>

definition end_date :: "lib \<Rightarrow> json" where
  "end_date L =
     (case index (split_on CHR ''T'' (toISOString L)) 0 of
        Some d \<Rightarrow> JStr d
      | None \<Rightarrow> JUndefined)"

definition transactions_request :: "lib \<Rightarrow> config \<Rightarrow> json \<Rightarrow> json" where
  "transactions_request L C access_token =
     JObj [(''client_id'', env_value (PLAID_CLIENT_ID C)),
           (''secret'', env_value (PLAID_SECRET C)),
           (''access_token'', access_token),
           (''start_date'', JStr ''2022-01-01''),
           (''end_date'', end_date L)]"

definition fetch_transactions :: "lib \<Rightarrow> config \<Rightarrow> request \<Rightarrow> state \<Rightarrow> response \<times> state" where
  "fetch_transactions L C req st =
     (case user req of
        None \<Rightarrow> (proxied_error L (TypeError ''Cannot read properties of undefined''), st)
      | Some decoded \<Rightarrow>
          (case findOne st (claim_email decoded) of
             Inl error \<Rightarrow> (proxied_error L error, st)
           | Inr None \<Rightarrow> (\<lparr>status = 400, sent = Send (JStr ''No access token found.'')\<rparr>, st)
           | Inr (Some u) \<Rightarrow>
               if \<not> truthy (accessToken u)
               then (\<lparr>status = 400, sent = Send (JStr ''No access token found.'')\<rparr>, st)
               else (case post L (PLAID_ENV @ ''/transactions/get'')
                            (transactions_request L C (accessToken u)) st of
                       (Inl error, st1) \<Rightarrow> (proxied_error L error, st1)
                     | (Inr res, st1) \<Rightarrow>
                         (case get_prop (resp_data res) ''transactions'' of
                            Inl error \<Rightarrow> (proxied_error L error, st1)
                          | Inr transactions \<Rightarrow>
                              (\<lparr>status = 200, sent = SendJson transactions\<rparr>, st1)))))"

text \<open>The routes as \<^verbatim>\<open>server.js\<close> registers them.\<close>

definition GET_user :: "lib \<Rightarrow> config \<Rightarrow> request \<Rightarrow> state \<Rightarrow> response \<times> state" where
  "GET_user L C = protected L C get_user"

definition POST_create_link_token :: "lib \<Rightarrow> config \<Rightarrow> request \<Rightarrow> state \<Rightarrow> response \<times> state" where
  "POST_create_link_token L C = protected L C (create_link_token L C)"

definition POST_exchange_public_token ::
  "lib \<Rightarrow> config \<Rightarrow> request \<Rightarrow> state \<Rightarrow> response \<times> state"
where
  "POST_exchange_public_token L C = protected L C (exchange_public_token L C)"

definition GET_fetch_transactions ::
  "lib \<Rightarrow> config \<Rightarrow> request \<Rightarrow> state \<Rightarrow> response \<times> state"
where
  "GET_fetch_transactions L C = protected L C (fetch_transactions L C)"

section \<open>Segments of a header, as whitespace separates them\<close>

text \<open>
  For comparison with \<^verbatim>\<open>split(' ')\<close>: the words of a header value, the pieces that
  spaces and tabs, one or several in a row, keep apart. This is not what the middleware
  computes.
\<close>

definition whitespace_segments :: "string \<Rightarrow> string list" where
  "whitespace_segments s =
     filter (\<lambda>w. w \<noteq> [])
       (split_on CHR '' '' (map (\<lambda>c. if c = CHR 0x09 then CHR '' '' else c) s))"

section \<open>Sample data\<close>

text \<open>
  One registered user, a store that answers, and stand-ins for the libraries: a verifier
  that accepts the single token \<open>t1\<close> under the key \<open>k\<close>, a hash that prefixes, an
  external API that answers the exchange and the transaction list and refuses everything
  else with status 400, and an Express that takes a lone number for the status.
\<close>

definition alice :: user where
  "alice = \<lparr>firstName = ''Alice'', lastName = ''Ng'', email = ''a@x.com'',
            password = ''hash-of-p1'', accessToken = JUndefined\<rparr>"

definition sample_state :: state where
  "sample_state = \<lparr>users = [alice], connected = True, requests = []\<rparr>"

definition sample_config :: config where
  "sample_config = \<lparr>PLAID_CLIENT_ID = Some ''client-1'', PLAID_SECRET = Some ''secret-1'',
                    JWT_SECRET = ''k''\<rparr>"

definition sample_lib :: lib where
  "sample_lib =
     \<lparr>jwt_sign = (\<lambda>payload key. Inr ''t1''),
      jwt_verify = (\<lambda>token key.
         if token = Some ''t1'' \<and> key = ''k'' then Inr (Claims ''a@x.com'')
         else Inl (Error ''invalid token'' None)),
      bcrypt_hash = (\<lambda>secret rounds. Inr (''hash-of-'' @ secret)),
      bcrypt_compare = (\<lambda>secret hashed. Inr (hashed = ''hash-of-'' @ secret)),
      axios_post = (\<lambda>url payload.
         if url = ''https://production.plaid.com/item/public_token/exchange''
         then Inr \<lparr>resp_status = 200, resp_data = JObj [(''access_token'', JStr ''access-1'')]\<rparr>
         else if url = ''https://production.plaid.com/transactions/get''
         then Inr \<lparr>resp_status = 200,
                   resp_data = JObj [(''transactions'', JArr [JObj [(''amount'', JNum 12)]])]\<rparr>
         else Inl (Error ''Request failed with status code 400''
                     (Some \<lparr>resp_status = 400,
                            resp_data = JObj [(''error_code'', JStr ''INVALID_FIELD'')]\<rparr>))),
      toISOString = ''2024-05-17T10:20:30.000Z'',
      res_send_number = (\<lambda>code n.
         \<lparr>status = nat n,
          sent = Send (if n = 404 then JStr ''Not Found'' else JUndefined)\<rparr>)\<rparr>"

text \<open>The same libraries with an external API that cannot be reached.\<close>

definition offline_lib :: lib where
  "offline_lib =
     sample_lib\<lparr>axios_post := (\<lambda>url payload. Inl (Error ''connect ECONNREFUSED'' None))\<rparr>"

definition sample_request :: request where
  "sample_request =
     \<lparr>header_Authorization = Some ''Bearer t1'',
      body = JObj [(''public_token'', JStr ''public-1'')],
      user = None\<rparr>"

section \<open>Facts about splitting and about the collection\<close>

lemma split_on_not_Nil: "split_on c s \<noteq> []"
  by (induction s) (auto split: list.splits)

lemma split_on_no_sep: "c \<notin> set s \<Longrightarrow> split_on c s = [s]"
  by (induction s) auto

lemma hd_split_on: "hd (split_on c s) = takeWhile (\<lambda>x. x \<noteq> c) s"
  by (induction s) (auto split: list.splits simp: split_on_not_Nil)

lemma split_on_prefix: "c \<notin> set w \<Longrightarrow> split_on c (w @ c # rest) = w # split_on c rest"
  by (induction w) (auto split: list.splits)

lemma index_split_on_0: "index (split_on c s) 0 = Some (takeWhile (\<lambda>x. x \<noteq> c) s)"
  using split_on_not_Nil [of c s] hd_split_on [of c s]
  by (cases "split_on c s") (auto simp: index_def)

lemma index_split_on_1:
  "c \<notin> set w \<Longrightarrow> index (split_on c (w @ c # rest)) (Suc 0) = Some (takeWhile (\<lambda>x. x \<noteq> c) rest)"
  using split_on_not_Nil [of c rest] hd_split_on [of c rest]
  by (cases "split_on c rest") (auto simp: index_def split_on_prefix)

lemma index_split_on_bare: "c \<notin> set s \<Longrightarrow> index (split_on c s) (Suc 0) = None"
  by (simp add: split_on_no_sep index_def)

lemma fst_update_first:
  "fst (update_first e tok us) =
     map_option (\<lambda>u. u\<lparr>accessToken := tok\<rparr>) (find (\<lambda>u. email u = e) us)"
  by (induction us) (auto split: prod.splits)

lemma update_first_none:
  "find (\<lambda>u. email u = e) us = None \<Longrightarrow> snd (update_first e tok us) = us"
  by (induction us) (auto split: prod.splits if_splits)

lemma find_update_first:
  "find (\<lambda>u. email u = e) (snd (update_first e tok us)) = fst (update_first e tok us)"
  by (induction us) (auto split: prod.splits)

lemma length_update_first: "length (snd (update_first e tok us)) = length us"
  by (induction us) (auto split: prod.splits)

lemma update_first_frame:
  "map (\<lambda>u. (firstName u, lastName u, email u, password u)) (snd (update_first e tok us))
     = map (\<lambda>u. (firstName u, lastName u, email u, password u)) us"
  by (induction us) (auto split: prod.splits)

lemma update_first_only_match:
  "i < length us \<Longrightarrow> snd (update_first e tok us) ! i \<noteq> us ! i \<Longrightarrow>
     email (us ! i) = e \<and> (\<forall>j<i. email (us ! j) \<noteq> e)"
proof (induction us arbitrary: i)
  case Nil
  then show ?case by simp
next
  case (Cons u us)
  show ?case
  proof (cases "email u = e")
    case True
    with Cons.prems show ?thesis by (cases i) auto
  next
    case False
    with Cons.prems obtain k where k: "i = Suc k" by (cases i) (auto split: prod.splits)
    with Cons.prems False have "k < length us" "snd (update_first e tok us) ! k \<noteq> us ! k"
      by (auto split: prod.splits)
    from Cons.IH [OF this] have "email (us ! k) = e" "\<forall>j<k. email (us ! j) \<noteq> e" by auto
    with k False show ?thesis by (auto simp: less_Suc_eq_0_disj)
  qed
qed

lemma find_email_member:
  "u \<in> set us \<Longrightarrow> email u = e \<Longrightarrow> \<exists>v. find (\<lambda>u. email u = e) us = Some v \<and> email v = e"
  by (induction us) auto

section \<open>Properties of registration and login\<close>

text \<open>
  C3. When the store answers and holds a record with the email of a registration request,
  the request is answered with status 400 and \<open>User already exists.\<close>, and the state after
  it is the state before it: the existing record, like every other, is as it was and no
  record has been added.
\<close>

theorem signup_existing_email:
  assumes "connected st" and "u \<in> set (users st)" and "email u = e"
  shows "signup L first_name last_name e secret st =
           (\<lparr>status = 400, sent = Send (JStr ''User already exists.'')\<rparr>, st)"
proof -
  from assms obtain v where "find (\<lambda>u. email u = e) (users st) = Some v"
    using find_email_member by blast
  with assms(1) have "findOne st e = Inr (Some v)" by (simp add: findOne_def)
  then show ?thesis by (simp add: signup_def)
qed

theorem signup_existing_email_witness:
  "connected sample_state \<and> alice \<in> set (users sample_state) \<and> email alice = ''a@x.com''
   \<and> signup sample_lib ''Eve'' ''Roe'' ''a@x.com'' ''p2'' sample_state =
       (\<lparr>status = 400, sent = Send (JStr ''User already exists.'')\<rparr>, sample_state)
   \<and> users sample_state = [alice]"
proof -
  have h1: "connected sample_state" by (simp add: sample_state_def)
  have h2: "alice \<in> set (users sample_state)" by (simp add: sample_state_def)
  have h3: "email alice = ''a@x.com''" by (simp add: alice_def)
  show ?thesis
    using h1 h2 h3 signup_existing_email [OF h1 h2 h3, of sample_lib "''Eve''" "''Roe''" "''p2''"]
    by (simp add: sample_state_def)
qed

text \<open>
  C2. A login for which the store finds no record and a login for which it finds one whose
  stored hash the password fails to match get the same response, status 400 with the body
  \<open>Invalid email or password.\<close>, whatever the emails, the passwords and the stores are;
  neither changes the state.
\<close>

theorem login_failures_alike:
  assumes "findOne st1 e1 = Inr None"
    and "findOne st2 e2 = Inr (Some u)"
    and "bcrypt_compare L secret2 (password u) = Inr False"
  shows "login L C e1 secret1 st1 =
           (\<lparr>status = 400, sent = Send (JStr ''Invalid email or password.'')\<rparr>, st1)
         \<and> login L C e2 secret2 st2 =
           (\<lparr>status = 400, sent = Send (JStr ''Invalid email or password.'')\<rparr>, st2)
         \<and> fst (login L C e1 secret1 st1) = fst (login L C e2 secret2 st2)"
  using assms by (simp add: login_def)

theorem login_failures_alike_witness:
  "findOne sample_state ''nobody@x.com'' = Inr None
   \<and> findOne sample_state ''a@x.com'' = Inr (Some alice)
   \<and> bcrypt_compare sample_lib ''wrong'' (password alice) = Inr False
   \<and> fst (login sample_lib sample_config ''nobody@x.com'' ''p1'' sample_state)
       = fst (login sample_lib sample_config ''a@x.com'' ''wrong'' sample_state)
   \<and> status (fst (login sample_lib sample_config ''a@x.com'' ''wrong'' sample_state)) = 400"
proof -
  have h1: "findOne sample_state ''nobody@x.com'' = Inr None"
    by (simp add: findOne_def sample_state_def alice_def)
  have h2: "findOne sample_state ''a@x.com'' = Inr (Some alice)"
    by (simp add: findOne_def sample_state_def alice_def)
  have h3: "bcrypt_compare sample_lib ''wrong'' (password alice) = Inr False"
    by (simp add: sample_lib_def alice_def)
  show ?thesis
    using h1 h2 h3
      login_failures_alike [OF h1 h2 h3, of sample_config "''p1''"]
    by simp
qed

section \<open>Properties of the middleware\<close>

text \<open>
  C1. On a protected route, a request with no Authorization header (or an empty one) is
  answered with status 401 and the handler is not run: the answer is the same for every
  handler and the state is untouched. A request whose header is not empty and whose token,
  the segment the middleware hands to the verifier, is refused by the verifier is answered
  with status 400, again without the handler. When the verifier accepts the token, the
  decoded claims are stored in \<open>req.user\<close> and the handler runs on that request.
\<close>

theorem authenticateJWT_gate:
  "(header_Authorization req = None \<or> header_Authorization req = Some [] \<longrightarrow>
      authenticateJWT L C req =
        Respond \<lparr>status = 401, sent = Send (JStr ''Access denied. No token provided.'')\<rparr>
      \<and> protected L C handler req st =
        (\<lparr>status = 401, sent = Send (JStr ''Access denied. No token provided.'')\<rparr>, st))
   \<and> (\<forall>token ex.
        header_Authorization req = Some token \<and> token \<noteq> []
        \<and> jwt_verify L (index (split_on CHR '' '' token) 1) (JWT_SECRET C) = Inl ex \<longrightarrow>
          authenticateJWT L C req = Respond \<lparr>status = 400, sent = Send (JStr ''Invalid token.'')\<rparr>
          \<and> protected L C handler req st =
            (\<lparr>status = 400, sent = Send (JStr ''Invalid token.'')\<rparr>, st))
   \<and> (\<forall>token decoded.
        header_Authorization req = Some token \<and> token \<noteq> []
        \<and> jwt_verify L (index (split_on CHR '' '' token) 1) (JWT_SECRET C) = Inr decoded \<longrightarrow>
          authenticateJWT L C req = Next (req\<lparr>user := Some decoded\<rparr>)
          \<and> protected L C handler req st = handler (req\<lparr>user := Some decoded\<rparr>) st)"
proof (cases "header_Authorization req")
  case None
  then have "authenticateJWT L C req =
      Respond \<lparr>status = 401, sent = Send (JStr ''Access denied. No token provided.'')\<rparr>"
    by (simp add: authenticateJWT_def)
  with None show ?thesis by (simp add: protected_def)
next
  case (Some token)
  show ?thesis
  proof (cases "token = []")
    case True
    with Some have "authenticateJWT L C req =
        Respond \<lparr>status = 401, sent = Send (JStr ''Access denied. No token provided.'')\<rparr>"
      by (simp add: authenticateJWT_def)
    with Some True show ?thesis by (simp add: protected_def)
  next
    case False
    with Some have verdict: "authenticateJWT L C req =
        (case jwt_verify L (index (split_on CHR '' '' token) 1) (JWT_SECRET C) of
           Inr decoded \<Rightarrow> Next (req\<lparr>user := Some decoded\<rparr>)
         | Inl ex \<Rightarrow> Respond \<lparr>status = 400, sent = Send (JStr ''Invalid token.'')\<rparr>)"
      by (simp add: authenticateJWT_def)
    from Some False show ?thesis
      by (cases "jwt_verify L (index (split_on CHR '' '' token) 1) (JWT_SECRET C)")
         (simp_all add: verdict protected_def)
  qed
qed

theorem authenticateJWT_gate_witness:
  "protected sample_lib sample_config get_user (sample_request\<lparr>header_Authorization := None\<rparr>)
       sample_state =
     (\<lparr>status = 401, sent = Send (JStr ''Access denied. No token provided.'')\<rparr>, sample_state)
   \<and> authenticateJWT sample_lib sample_config
       (sample_request\<lparr>header_Authorization := Some ''Bearer t2''\<rparr>) =
     Respond \<lparr>status = 400, sent = Send (JStr ''Invalid token.'')\<rparr>
   \<and> authenticateJWT sample_lib sample_config sample_request =
     Next (sample_request\<lparr>user := Some (Claims ''a@x.com'')\<rparr>)
   \<and> protected sample_lib sample_config get_user sample_request sample_state =
     get_user (sample_request\<lparr>user := Some (Claims ''a@x.com'')\<rparr>) sample_state"
proof -
  have seg1: "index (split_on CHR '' '' ''Bearer t1'') 1 = Some ''t1''"
    by (simp add: index_def)
  have seg2: "index (split_on CHR '' '' ''Bearer t2'') 1 = Some ''t2''"
    by (simp add: index_def)
  have none: "header_Authorization (sample_request\<lparr>header_Authorization := None\<rparr>) = None"
    by simp
  have bad: "header_Authorization (sample_request\<lparr>header_Authorization := Some ''Bearer t2''\<rparr>)
        = Some ''Bearer t2'' \<and> ''Bearer t2'' \<noteq> []
      \<and> jwt_verify sample_lib (index (split_on CHR '' '' ''Bearer t2'') 1)
          (JWT_SECRET sample_config) = Inl (Error ''invalid token'' None)"
    unfolding seg2 by (simp add: sample_lib_def sample_config_def)
  have good: "header_Authorization sample_request = Some ''Bearer t1'' \<and> ''Bearer t1'' \<noteq> []
      \<and> jwt_verify sample_lib (index (split_on CHR '' '' ''Bearer t1'') 1)
          (JWT_SECRET sample_config) = Inr (Claims ''a@x.com'')"
    unfolding seg1 by (simp add: sample_lib_def sample_config_def sample_request_def)
  from none
    authenticateJWT_gate [of "sample_request\<lparr>header_Authorization := None\<rparr>"
      sample_lib sample_config get_user sample_state]
  have a: "protected sample_lib sample_config get_user
        (sample_request\<lparr>header_Authorization := None\<rparr>) sample_state =
      (\<lparr>status = 401, sent = Send (JStr ''Access denied. No token provided.'')\<rparr>, sample_state)"
    by blast
  from bad
    authenticateJWT_gate [of "sample_request\<lparr>header_Authorization := Some ''Bearer t2''\<rparr>"
      sample_lib sample_config get_user sample_state]
  have b: "authenticateJWT sample_lib sample_config
        (sample_request\<lparr>header_Authorization := Some ''Bearer t2''\<rparr>) =
      Respond \<lparr>status = 400, sent = Send (JStr ''Invalid token.'')\<rparr>"
    by blast
  from good authenticateJWT_gate [of sample_request sample_lib sample_config get_user sample_state]
  have c: "authenticateJWT sample_lib sample_config sample_request =
        Next (sample_request\<lparr>user := Some (Claims ''a@x.com'')\<rparr>)
      \<and> protected sample_lib sample_config get_user sample_request sample_state =
        get_user (sample_request\<lparr>user := Some (Claims ''a@x.com'')\<rparr>) sample_state"
    by blast
  from a b c show ?thesis by blast
qed

text \<open>
  The outcome of the middleware on a header that has a space: only what stands between
  the first space and the next one reaches the verifier.
\<close>

lemma authenticateJWT_second_segment:
  assumes "CHR '' '' \<notin> set w"
  shows "authenticateJWT L C (req\<lparr>header_Authorization := Some (w @ CHR '' '' # rest)\<rparr>) =
           (case jwt_verify L (Some (takeWhile (\<lambda>x. x \<noteq> CHR '' '') rest)) (JWT_SECRET C) of
              Inr decoded \<Rightarrow>
                Next (req\<lparr>header_Authorization := Some (w @ CHR '' '' # rest),
                           user := Some decoded\<rparr>)
            | Inl ex \<Rightarrow> Respond \<lparr>status = 400, sent = Send (JStr ''Invalid token.'')\<rparr>)"
  using assms by (simp add: authenticateJWT_def index_split_on_1 split: sum.splits)

text \<open>
  C9, as the code has it. For a header that is not empty the middleware hands the verifier
  the second of the segments that \<^verbatim>\<open>split(' ')\<close> gives, those that single space
  characters delimit, and nothing else of the header decides the outcome: whatever word
  without a space stands before the first space, \<open>Bearer\<close>, \<open>Basic\<close>, \<open>X\<close> or the
  empty word, the verifier is asked about what stands between the first space and the
  next, and a token without a space that it accepts is let through with its claims
  attached. A header that is not empty and has no space gives the verifier \<open>undefined\<close>,
  and the answer is status 400 when the verifier throws on \<open>undefined\<close>, as
  \<open>jwt.verify\<close> does.
\<close>

theorem authenticateJWT_scheme_unchecked:
  "(\<forall>w rest. CHR '' '' \<notin> set w \<longrightarrow>
      authenticateJWT L C (req\<lparr>header_Authorization := Some (w @ CHR '' '' # rest)\<rparr>) =
        (case jwt_verify L (Some (takeWhile (\<lambda>x. x \<noteq> CHR '' '') rest)) (JWT_SECRET C) of
           Inr decoded \<Rightarrow>
             Next (req\<lparr>header_Authorization := Some (w @ CHR '' '' # rest),
                        user := Some decoded\<rparr>)
         | Inl ex \<Rightarrow> Respond \<lparr>status = 400, sent = Send (JStr ''Invalid token.'')\<rparr>))
   \<and> (\<forall>w t decoded.
        CHR '' '' \<notin> set w \<and> CHR '' '' \<notin> set t
        \<and> jwt_verify L (Some t) (JWT_SECRET C) = Inr decoded \<longrightarrow>
          authenticateJWT L C (req\<lparr>header_Authorization := Some (w @ CHR '' '' # t)\<rparr>) =
            Next (req\<lparr>header_Authorization := Some (w @ CHR '' '' # t), user := Some decoded\<rparr>))
   \<and> (\<forall>h ex.
        h \<noteq> [] \<and> CHR '' '' \<notin> set h \<and> jwt_verify L None (JWT_SECRET C) = Inl ex \<longrightarrow>
          authenticateJWT L C (req\<lparr>header_Authorization := Some h\<rparr>) =
            Respond \<lparr>status = 400, sent = Send (JStr ''Invalid token.'')\<rparr>)"
proof (intro conjI allI impI)
  fix w rest
  assume "CHR '' '' \<notin> set w"
  then show "authenticateJWT L C (req\<lparr>header_Authorization := Some (w @ CHR '' '' # rest)\<rparr>) =
        (case jwt_verify L (Some (takeWhile (\<lambda>x. x \<noteq> CHR '' '') rest)) (JWT_SECRET C) of
           Inr decoded \<Rightarrow>
             Next (req\<lparr>header_Authorization := Some (w @ CHR '' '' # rest),
                        user := Some decoded\<rparr>)
         | Inl ex \<Rightarrow> Respond \<lparr>status = 400, sent = Send (JStr ''Invalid token.'')\<rparr>)"
    by (rule authenticateJWT_second_segment)
next
  fix w t decoded
  assume h: "CHR '' '' \<notin> set w \<and> CHR '' '' \<notin> set t
    \<and> jwt_verify L (Some t) (JWT_SECRET C) = Inr decoded"
  then have "\<forall>x\<in>set t. x \<noteq> CHR '' ''" by auto
  with h show "authenticateJWT L C (req\<lparr>header_Authorization := Some (w @ CHR '' '' # t)\<rparr>) =
      Next (req\<lparr>header_Authorization := Some (w @ CHR '' '' # t), user := Some decoded\<rparr>)"
    by (simp add: authenticateJWT_second_segment takeWhile_eq_all_conv [THEN iffD2])
next
  fix h ex
  assume "h \<noteq> [] \<and> CHR '' '' \<notin> set h \<and> jwt_verify L None (JWT_SECRET C) = Inl ex"
  then show "authenticateJWT L C (req\<lparr>header_Authorization := Some h\<rparr>) =
      Respond \<lparr>status = 400, sent = Send (JStr ''Invalid token.'')\<rparr>"
    by (simp add: authenticateJWT_def index_split_on_bare)
qed

theorem authenticateJWT_scheme_unchecked_witness:
  "authenticateJWT sample_lib sample_config
       (sample_request\<lparr>header_Authorization := Some ''Basic t1''\<rparr>) =
     Next (sample_request\<lparr>header_Authorization := Some ''Basic t1'',
                          user := Some (Claims ''a@x.com'')\<rparr>)
   \<and> authenticateJWT sample_lib sample_config
       (sample_request\<lparr>header_Authorization := Some ''X t1''\<rparr>) =
     Next (sample_request\<lparr>header_Authorization := Some ''X t1'',
                          user := Some (Claims ''a@x.com'')\<rparr>)
   \<and> authenticateJWT sample_lib sample_config
       (sample_request\<lparr>header_Authorization := Some ''t1''\<rparr>) =
     Respond \<lparr>status = 400, sent = Send (JStr ''Invalid token.'')\<rparr>"
proof -
  have ok: "jwt_verify sample_lib (Some ''t1'') (JWT_SECRET sample_config) = Inr (Claims ''a@x.com'')"
    by (simp add: sample_lib_def sample_config_def)
  have undef: "jwt_verify sample_lib None (JWT_SECRET sample_config) = Inl (Error ''invalid token'' None)"
    by (simp add: sample_lib_def sample_config_def)
  have basic: "CHR '' '' \<notin> set ''Basic'' \<and> CHR '' '' \<notin> set ''t1''
      \<and> jwt_verify sample_lib (Some ''t1'') (JWT_SECRET sample_config) = Inr (Claims ''a@x.com'')"
    using ok by simp
  have x: "CHR '' '' \<notin> set ''X'' \<and> CHR '' '' \<notin> set ''t1''
      \<and> jwt_verify sample_lib (Some ''t1'') (JWT_SECRET sample_config) = Inr (Claims ''a@x.com'')"
    using ok by simp
  have bare: "''t1'' \<noteq> [] \<and> CHR '' '' \<notin> set ''t1''
      \<and> jwt_verify sample_lib None (JWT_SECRET sample_config) = Inl (Error ''invalid token'' None)"
    using undef by simp
  note inst = authenticateJWT_scheme_unchecked [of sample_lib sample_config sample_request]
  from inst basic
  have a: "authenticateJWT sample_lib sample_config
        (sample_request\<lparr>header_Authorization := Some (''Basic'' @ CHR '' '' # ''t1'')\<rparr>) =
      Next (sample_request\<lparr>header_Authorization := Some (''Basic'' @ CHR '' '' # ''t1''),
                           user := Some (Claims ''a@x.com'')\<rparr>)"
    by blast
  from inst x
  have b: "authenticateJWT sample_lib sample_config
        (sample_request\<lparr>header_Authorization := Some (''X'' @ CHR '' '' # ''t1'')\<rparr>) =
      Next (sample_request\<lparr>header_Authorization := Some (''X'' @ CHR '' '' # ''t1''),
                           user := Some (Claims ''a@x.com'')\<rparr>)"
    by blast
  from inst bare
  have c: "authenticateJWT sample_lib sample_config
        (sample_request\<lparr>header_Authorization := Some ''t1''\<rparr>) =
      Respond \<lparr>status = 400, sent = Send (JStr ''Invalid token.'')\<rparr>"
    by blast
  from a b c show ?thesis by simp
qed

text \<open>
  C9 as the claim words it fails: of the header \<open>Bearer\<close>, two spaces, \<open>t1\<close>, and of
  the header \<open>Bearer\<close>, a tab, \<open>t1\<close>, the second segment that whitespace separates is
  the token \<open>t1\<close>, which the verifier accepts; the middleware hands the verifier the
  empty string for the first and \<open>undefined\<close> for the second, and answers both with
  status 400.
\<close>

theorem authenticateJWT_whitespace_rejected:
  "index (whitespace_segments ''Bearer  t1'') 1 = Some ''t1''
   \<and> index (whitespace_segments (''Bearer'' @ CHR 0x09 # ''t1'')) 1 = Some ''t1''
   \<and> jwt_verify sample_lib (Some ''t1'') (JWT_SECRET sample_config) = Inr (Claims ''a@x.com'')
   \<and> index (split_on CHR '' '' ''Bearer  t1'') 1 = Some []
   \<and> index (split_on CHR '' '' (''Bearer'' @ CHR 0x09 # ''t1'')) 1 = None
   \<and> authenticateJWT sample_lib sample_config
         (sample_request\<lparr>header_Authorization := Some ''Bearer  t1''\<rparr>) =
       Respond \<lparr>status = 400, sent = Send (JStr ''Invalid token.'')\<rparr>
   \<and> authenticateJWT sample_lib sample_config
         (sample_request\<lparr>header_Authorization := Some (''Bearer'' @ CHR 0x09 # ''t1'')\<rparr>) =
       Respond \<lparr>status = 400, sent = Send (JStr ''Invalid token.'')\<rparr>"
  by (simp add: whitespace_segments_def index_def authenticateJWT_def sample_lib_def
        sample_config_def)

section \<open>Properties of the profile route\<close>

text \<open>
  Two collections that agree, record by record, on first name, last name and email give
  the same answer to a lookup by email, up to the members they differ in.
\<close>

lemma find_email_public:
  "map (\<lambda>u. (firstName u, lastName u, email u)) us = map (\<lambda>u. (firstName u, lastName u, email u)) vs
   \<Longrightarrow> map_option (\<lambda>u. (firstName u, lastName u, email u)) (find (\<lambda>u. email u = e) us)
       = map_option (\<lambda>u. (firstName u, lastName u, email u)) (find (\<lambda>u. email u = e) vs)"
proof (induction us arbitrary: vs)
  case Nil
  then show ?case by simp
next
  case (Cons u us)
  then obtain v vs' where vs: "vs = v # vs'" by (cases vs) auto
  with Cons.prems have "email u = email v" and
    "map (\<lambda>u. (firstName u, lastName u, email u)) us
       = map (\<lambda>u. (firstName u, lastName u, email u)) vs'"
    by auto
  with Cons.IH [of vs'] Cons.prems vs show ?case by auto
qed

lemma get_user_public:
  assumes "map (\<lambda>u. (firstName u, lastName u, email u)) (users st)
             = map (\<lambda>u. (firstName u, lastName u, email u)) (users st')"
    and "connected st = connected st'"
  shows "fst (get_user req st) = fst (get_user req st')"
proof (cases "user req")
  case None
  then show ?thesis by (simp add: get_user_def)
next
  case (Some decoded)
  from find_email_public [OF assms(1), of "claim_email decoded"]
  have "map_option (\<lambda>u. (firstName u, lastName u, email u))
            (find (\<lambda>u. email u = claim_email decoded) (users st))
        = map_option (\<lambda>u. (firstName u, lastName u, email u))
            (find (\<lambda>u. email u = claim_email decoded) (users st'))" .
  with Some assms(2) show ?thesis
    by (cases "find (\<lambda>u. email u = claim_email decoded) (users st)";
        cases "find (\<lambda>u. email u = claim_email decoded) (users st')")
       (auto simp: get_user_def findOne_def)
qed

text \<open>
  C4. For a request the middleware lets through with the identity \<open>decoded\<close>: when the
  store finds no record for the identity's email, \<open>GET /user\<close> answers status 400 with
  \<open>User not found.\<close>; when it finds the record \<open>u\<close>, the answer is status 200 with the
  object of exactly the three members \<open>firstName\<close>, \<open>lastName\<close> and \<open>email\<close> of \<open>u\<close>.
  The answer carries nothing of the password hashes and access tokens: two stores that
  differ only in those members of their records get the same answer. The state is not
  changed.
\<close>

theorem GET_user_profile:
  assumes "authenticateJWT L C req = Next (req\<lparr>user := Some decoded\<rparr>)"
  shows "(findOne st (claim_email decoded) = Inr None \<longrightarrow>
            GET_user L C req st = (\<lparr>status = 400, sent = Send (JStr ''User not found.'')\<rparr>, st))
       \<and> (\<forall>u. findOne st (claim_email decoded) = Inr (Some u) \<longrightarrow>
            GET_user L C req st =
              (\<lparr>status = 200,
                sent = SendJson (JObj [(''firstName'', JStr (firstName u)),
                                       (''lastName'', JStr (lastName u)),
                                       (''email'', JStr (email u))])\<rparr>, st))
       \<and> (\<forall>st'. map (\<lambda>u. (firstName u, lastName u, email u)) (users st)
                   = map (\<lambda>u. (firstName u, lastName u, email u)) (users st')
                 \<and> connected st = connected st' \<longrightarrow>
            fst (GET_user L C req st) = fst (GET_user L C req st'))"
proof -
  have route: "GET_user L C req s = get_user (req\<lparr>user := Some decoded\<rparr>) s" for s
    using assms by (simp add: GET_user_def protected_def)
  have missing: "findOne st (claim_email decoded) = Inr None \<longrightarrow>
      GET_user L C req st = (\<lparr>status = 400, sent = Send (JStr ''User not found.'')\<rparr>, st)"
    by (simp add: route get_user_def)
  have found: "\<forall>u. findOne st (claim_email decoded) = Inr (Some u) \<longrightarrow>
      GET_user L C req st =
        (\<lparr>status = 200,
          sent = SendJson (JObj [(''firstName'', JStr (firstName u)),
                                 (''lastName'', JStr (lastName u)),
                                 (''email'', JStr (email u))])\<rparr>, st)"
    by (simp add: route get_user_def)
  have public: "\<forall>st'. map (\<lambda>u. (firstName u, lastName u, email u)) (users st)
                   = map (\<lambda>u. (firstName u, lastName u, email u)) (users st')
                 \<and> connected st = connected st' \<longrightarrow>
      fst (GET_user L C req st) = fst (GET_user L C req st')"
  proof (intro allI impI)
    fix st' :: state
    assume h: "map (\<lambda>u. (firstName u, lastName u, email u)) (users st)
                 = map (\<lambda>u. (firstName u, lastName u, email u)) (users st')
               \<and> connected st = connected st'"
    from h have "fst (get_user (req\<lparr>user := Some decoded\<rparr>) st)
        = fst (get_user (req\<lparr>user := Some decoded\<rparr>) st')"
      by (intro get_user_public) (rule conjunct1, assumption, rule conjunct2, assumption)
    then show "fst (GET_user L C req st) = fst (GET_user L C req st')"
      by (simp only: route)
  qed
  show ?thesis by (rule conjI [OF missing conjI [OF found public]])
qed

theorem GET_user_profile_witness:
  "authenticateJWT sample_lib sample_config sample_request =
     Next (sample_request\<lparr>user := Some (Claims ''a@x.com'')\<rparr>)
   \<and> GET_user sample_lib sample_config sample_request sample_state =
       (\<lparr>status = 200,
         sent = SendJson (JObj [(''firstName'', JStr ''Alice''),
                                (''lastName'', JStr ''Ng''),
                                (''email'', JStr ''a@x.com'')])\<rparr>, sample_state)
   \<and> GET_user sample_lib sample_config sample_request (sample_state\<lparr>users := []\<rparr>) =
       (\<lparr>status = 400, sent = Send (JStr ''User not found.'')\<rparr>, sample_state\<lparr>users := []\<rparr>)
   \<and> fst (GET_user sample_lib sample_config sample_request sample_state) =
     fst (GET_user sample_lib sample_config sample_request
            (sample_state\<lparr>users := [alice\<lparr>password := ''other'', accessToken := JStr ''access-9''\<rparr>]\<rparr>))"
proof -
  have auth: "authenticateJWT sample_lib sample_config sample_request =
      Next (sample_request\<lparr>user := Some (Claims ''a@x.com'')\<rparr>)"
    by (simp add: authenticateJWT_def sample_request_def sample_lib_def sample_config_def index_def)
  have found: "findOne sample_state (claim_email (Claims ''a@x.com'')) = Inr (Some alice)"
    by (simp add: findOne_def sample_state_def alice_def)
  have missing: "findOne (sample_state\<lparr>users := []\<rparr>) (claim_email (Claims ''a@x.com'')) = Inr None"
    by (simp add: findOne_def sample_state_def)
  have same: "map (\<lambda>u. (firstName u, lastName u, email u)) (users sample_state)
      = map (\<lambda>u. (firstName u, lastName u, email u))
          (users (sample_state\<lparr>users := [alice\<lparr>password := ''other'',
                                                 accessToken := JStr ''access-9''\<rparr>]\<rparr>))
    \<and> connected sample_state
      = connected (sample_state\<lparr>users := [alice\<lparr>password := ''other'',
                                                   accessToken := JStr ''access-9''\<rparr>]\<rparr>)"
    by (simp add: sample_state_def)
  from found GET_user_profile [OF auth, of sample_state]
  have a: "GET_user sample_lib sample_config sample_request sample_state =
      (\<lparr>status = 200,
        sent = SendJson (JObj [(''firstName'', JStr (firstName alice)),
                               (''lastName'', JStr (lastName alice)),
                               (''email'', JStr (email alice))])\<rparr>, sample_state)"
    by blast
  from missing GET_user_profile [OF auth, of "sample_state\<lparr>users := []\<rparr>"]
  have b: "GET_user sample_lib sample_config sample_request (sample_state\<lparr>users := []\<rparr>) =
      (\<lparr>status = 400, sent = Send (JStr ''User not found.'')\<rparr>, sample_state\<lparr>users := []\<rparr>)"
    by blast
  from same GET_user_profile [OF auth, of sample_state]
  have c: "fst (GET_user sample_lib sample_config sample_request sample_state) =
      fst (GET_user sample_lib sample_config sample_request
             (sample_state\<lparr>users := [alice\<lparr>password := ''other'',
                                               accessToken := JStr ''access-9''\<rparr>]\<rparr>))"
    by blast
  from auth a b c show ?thesis by (simp add: alice_def)
qed

section \<open>Properties of the proxy: link tokens\<close>

text \<open>
  C7, as the code has it. For a request the middleware lets through, when the call to the
  link-token endpoint fails, by an answer that is not a success or by a transport error,
  \<open>POST /create_link_token\<close> answers with status 500 whatever status the external API
  gave; the body is the external body where the error carries an answer whose body is not
  a number, and the text \<open>Internal Server Error\<close> where it carries none. What is
  answered for an external body that is a number is Express's doing and is not stated.
\<close>

theorem create_link_token_failure:
  assumes "authenticateJWT L C req = Next (req\<lparr>user := Some decoded\<rparr>)"
    and "axios_post L (PLAID_ENV @ ''/link/token/create'')
           (link_token_request C (claim_email decoded)) = Inl err"
    and "\<forall>r. response err = Some r \<longrightarrow> \<not> is_number (resp_data r)"
  shows "fst (POST_create_link_token L C req st) =
           \<lparr>status = 500,
            sent = Send (case response err of
                           Some r \<Rightarrow> resp_data r
                         | None \<Rightarrow> JStr ''Internal Server Error'')\<rparr>"
proof -
  have run: "fst (POST_create_link_token L C req st) = proxied_error L err"
    using assms(1,2)
    by (simp add: POST_create_link_token_def protected_def create_link_token_def post_def)
  show ?thesis
  proof (cases "response err")
    case None
    then show ?thesis by (simp add: run proxied_error_def res_send_def)
  next
    case (Some r)
    with assms(3) have "\<not> is_number (resp_data r)" by simp
    then have "res_send L 500 (resp_data r) = \<lparr>status = 500, sent = Send (resp_data r)\<rparr>"
      by (cases "resp_data r") (simp_all add: res_send_def)
    with Some show ?thesis by (simp add: run proxied_error_def)
  qed
qed

theorem create_link_token_failure_witness:
  "authenticateJWT sample_lib sample_config sample_request =
     Next (sample_request\<lparr>user := Some (Claims ''a@x.com'')\<rparr>)
   \<and> axios_post sample_lib (PLAID_ENV @ ''/link/token/create'')
       (link_token_request sample_config (claim_email (Claims ''a@x.com''))) =
     Inl (Error ''Request failed with status code 400''
            (Some \<lparr>resp_status = 400,
                   resp_data = JObj [(''error_code'', JStr ''INVALID_FIELD'')]\<rparr>))
   \<and> \<not> is_number (JObj [(''error_code'', JStr ''INVALID_FIELD'')])
   \<and> fst (POST_create_link_token sample_lib sample_config sample_request sample_state) =
       \<lparr>status = 500, sent = Send (JObj [(''error_code'', JStr ''INVALID_FIELD'')])\<rparr>"
proof -
  have auth: "authenticateJWT sample_lib sample_config sample_request =
      Next (sample_request\<lparr>user := Some (Claims ''a@x.com'')\<rparr>)"
    by (simp add: authenticateJWT_def sample_request_def sample_lib_def sample_config_def index_def)
  have refused: "axios_post sample_lib (PLAID_ENV @ ''/link/token/create'')
      (link_token_request sample_config (claim_email (Claims ''a@x.com''))) =
    Inl (Error ''Request failed with status code 400''
           (Some \<lparr>resp_status = 400,
                  resp_data = JObj [(''error_code'', JStr ''INVALID_FIELD'')]\<rparr>))"
    by (simp add: sample_lib_def PLAID_ENV_def)
  have body: "\<forall>r. response (Error ''Request failed with status code 400''
           (Some \<lparr>resp_status = 400,
                  resp_data = JObj [(''error_code'', JStr ''INVALID_FIELD'')]\<rparr>)) = Some r
      \<longrightarrow> \<not> is_number (resp_data r)"
    by auto
  from auth refused create_link_token_failure [OF auth refused body, of sample_state]
  show ?thesis by simp
qed

text \<open>
  C7 as the claim words it fails: the external API refuses the link-token request with
  status 400, and the client is answered with status 500, not 400.
\<close>

theorem create_link_token_status_not_proxied:
  "axios_post sample_lib (PLAID_ENV @ ''/link/token/create'')
       (link_token_request sample_config ''a@x.com'') =
     Inl (Error ''Request failed with status code 400''
            (Some \<lparr>resp_status = 400,
                   resp_data = JObj [(''error_code'', JStr ''INVALID_FIELD'')]\<rparr>))
   \<and> status (fst (POST_create_link_token sample_lib sample_config sample_request sample_state))
       = 500
   \<and> status (fst (POST_create_link_token sample_lib sample_config sample_request sample_state))
       \<noteq> 400"
  by (simp add: POST_create_link_token_def protected_def create_link_token_def post_def
        proxied_error_def res_send_def authenticateJWT_def sample_request_def sample_lib_def
        sample_config_def index_def PLAID_ENV_def)

section \<open>Properties of the proxy: transactions\<close>

text \<open>
  C5. For a request the middleware lets through with the identity \<open>decoded\<close>: when the
  store finds no record for the identity's email, or finds one whose access token is
  absent (\<open>undefined\<close>, or any other value JavaScript takes for false),
  \<open>GET /fetch_transactions\<close> answers status 400 with \<open>No access token found.\<close> and sends
  nothing to the external API. When the record has a token, exactly one request is sent,
  to the transaction-list endpoint, with that token, the start date \<open>2022-01-01\<close> and as
  end date the date part of the current instant in ISO form (what precedes its \<open>T\<close>);
  and when that call succeeds, the answer is status 200 with the \<open>transactions\<close> member
  of the external body.
\<close>

theorem fetch_transactions_token:
  assumes "authenticateJWT L C req = Next (req\<lparr>user := Some decoded\<rparr>)"
  shows "(findOne st (claim_email decoded) = Inr None
          \<or> (\<exists>u. findOne st (claim_email decoded) = Inr (Some u) \<and> accessToken u = JUndefined)
          \<or> (\<exists>u. findOne st (claim_email decoded) = Inr (Some u) \<and> \<not> truthy (accessToken u))
          \<longrightarrow>
            GET_fetch_transactions L C req st =
              (\<lparr>status = 400, sent = Send (JStr ''No access token found.'')\<rparr>, st))
       \<and> (\<forall>u. findOne st (claim_email decoded) = Inr (Some u) \<and> truthy (accessToken u) \<longrightarrow>
            requests (snd (GET_fetch_transactions L C req st)) =
              requests st @
                [(''https://production.plaid.com/transactions/get'',
                  JObj [(''client_id'', env_value (PLAID_CLIENT_ID C)),
                        (''secret'', env_value (PLAID_SECRET C)),
                        (''access_token'', accessToken u),
                        (''start_date'', JStr ''2022-01-01''),
                        (''end_date'',
                           JStr (takeWhile (\<lambda>c. c \<noteq> CHR ''T'') (toISOString L)))])]
            \<and> users (snd (GET_fetch_transactions L C req st)) = users st
            \<and> (\<forall>res transactions.
                  axios_post L ''https://production.plaid.com/transactions/get''
                    (transactions_request L C (accessToken u)) = Inr res
                  \<and> get_prop (resp_data res) ''transactions'' = Inr transactions \<longrightarrow>
                    fst (GET_fetch_transactions L C req st) =
                      \<lparr>status = 200, sent = SendJson transactions\<rparr>))"
proof -
  have route: "GET_fetch_transactions L C req s =
      fetch_transactions L C (req\<lparr>user := Some decoded\<rparr>) s" for s
    using assms by (simp add: GET_fetch_transactions_def protected_def)
  have payload: "transactions_request L C tok =
      JObj [(''client_id'', env_value (PLAID_CLIENT_ID C)),
            (''secret'', env_value (PLAID_SECRET C)),
            (''access_token'', tok),
            (''start_date'', JStr ''2022-01-01''),
            (''end_date'', JStr (takeWhile (\<lambda>c. c \<noteq> CHR ''T'') (toISOString L)))]" for tok
    by (simp add: transactions_request_def end_date_def index_split_on_0)
  have unlinked: "findOne st (claim_email decoded) = Inr None
      \<or> (\<exists>u. findOne st (claim_email decoded) = Inr (Some u) \<and> accessToken u = JUndefined)
      \<or> (\<exists>u. findOne st (claim_email decoded) = Inr (Some u) \<and> \<not> truthy (accessToken u))
      \<longrightarrow>
        GET_fetch_transactions L C req st =
          (\<lparr>status = 400, sent = Send (JStr ''No access token found.'')\<rparr>, st)"
    by (auto simp: route fetch_transactions_def)
  have linked: "\<forall>u. findOne st (claim_email decoded) = Inr (Some u) \<and> truthy (accessToken u) \<longrightarrow>
      requests (snd (GET_fetch_transactions L C req st)) =
        requests st @
          [(''https://production.plaid.com/transactions/get'',
            JObj [(''client_id'', env_value (PLAID_CLIENT_ID C)),
                  (''secret'', env_value (PLAID_SECRET C)),
                  (''access_token'', accessToken u),
                  (''start_date'', JStr ''2022-01-01''),
                  (''end_date'',
                     JStr (takeWhile (\<lambda>c. c \<noteq> CHR ''T'') (toISOString L)))])]
      \<and> users (snd (GET_fetch_transactions L C req st)) = users st
      \<and> (\<forall>res transactions.
            axios_post L ''https://production.plaid.com/transactions/get''
              (transactions_request L C (accessToken u)) = Inr res
            \<and> get_prop (resp_data res) ''transactions'' = Inr transactions \<longrightarrow>
              fst (GET_fetch_transactions L C req st) =
                \<lparr>status = 200, sent = SendJson transactions\<rparr>)"
  proof (intro allI impI)
    fix u
    assume h: "findOne st (claim_email decoded) = Inr (Some u) \<and> truthy (accessToken u)"
    let ?url = "''https://production.plaid.com/transactions/get''"
    let ?answer = "axios_post L ?url (transactions_request L C (accessToken u))"
    have run: "GET_fetch_transactions L C req st =
        (case ?answer of
           Inl error \<Rightarrow> proxied_error L error
         | Inr res \<Rightarrow>
             (case get_prop (resp_data res) ''transactions'' of
                Inl error \<Rightarrow> proxied_error L error
              | Inr transactions \<Rightarrow> \<lparr>status = 200, sent = SendJson transactions\<rparr>),
         st\<lparr>requests := requests st @ [(?url, transactions_request L C (accessToken u))]\<rparr>)"
      using h
      by (simp add: route fetch_transactions_def post_def PLAID_ENV_def split: sum.splits)
    show "requests (snd (GET_fetch_transactions L C req st)) =
        requests st @
          [(?url,
            JObj [(''client_id'', env_value (PLAID_CLIENT_ID C)),
                  (''secret'', env_value (PLAID_SECRET C)),
                  (''access_token'', accessToken u),
                  (''start_date'', JStr ''2022-01-01''),
                  (''end_date'',
                     JStr (takeWhile (\<lambda>c. c \<noteq> CHR ''T'') (toISOString L)))])]
      \<and> users (snd (GET_fetch_transactions L C req st)) = users st
      \<and> (\<forall>res transactions.
            ?answer = Inr res
            \<and> get_prop (resp_data res) ''transactions'' = Inr transactions \<longrightarrow>
              fst (GET_fetch_transactions L C req st) =
                \<lparr>status = 200, sent = SendJson transactions\<rparr>)"
      unfolding run by (simp add: payload)
  qed
  show ?thesis by (rule conjI [OF unlinked linked])
qed

theorem fetch_transactions_token_witness:
  "authenticateJWT sample_lib sample_config sample_request =
     Next (sample_request\<lparr>user := Some (Claims ''a@x.com'')\<rparr>)
   \<and> findOne sample_state ''a@x.com'' = Inr (Some alice) \<and> accessToken alice = JUndefined
   \<and> GET_fetch_transactions sample_lib sample_config sample_request sample_state =
       (\<lparr>status = 400, sent = Send (JStr ''No access token found.'')\<rparr>, sample_state)
   \<and> truthy (accessToken (alice\<lparr>accessToken := JStr ''access-1''\<rparr>))
   \<and> requests (snd (GET_fetch_transactions sample_lib sample_config sample_request
                      (sample_state\<lparr>users := [alice\<lparr>accessToken := JStr ''access-1''\<rparr>]\<rparr>))) =
       [(''https://production.plaid.com/transactions/get'',
         JObj [(''client_id'', JStr ''client-1''),
               (''secret'', JStr ''secret-1''),
               (''access_token'', JStr ''access-1''),
               (''start_date'', JStr ''2022-01-01''),
               (''end_date'', JStr ''2024-05-17'')])]
   \<and> fst (GET_fetch_transactions sample_lib sample_config sample_request
             (sample_state\<lparr>users := [alice\<lparr>accessToken := JStr ''access-1''\<rparr>]\<rparr>)) =
       \<lparr>status = 200, sent = SendJson (JArr [JObj [(''amount'', JNum 12)]])\<rparr>"
proof -
  let ?linked = "sample_state\<lparr>users := [alice\<lparr>accessToken := JStr ''access-1''\<rparr>]\<rparr>"
  let ?u = "alice\<lparr>accessToken := JStr ''access-1''\<rparr>"
  have auth: "authenticateJWT sample_lib sample_config sample_request =
      Next (sample_request\<lparr>user := Some (Claims ''a@x.com'')\<rparr>)"
    by (simp add: authenticateJWT_def sample_request_def sample_lib_def sample_config_def index_def)
  have before: "findOne sample_state (claim_email (Claims ''a@x.com'')) = Inr (Some alice)
      \<and> accessToken alice = JUndefined"
    by (simp add: findOne_def sample_state_def alice_def)
  have after: "findOne ?linked (claim_email (Claims ''a@x.com'')) = Inr (Some ?u)
      \<and> truthy (accessToken ?u)"
    by (simp add: findOne_def sample_state_def alice_def)
  have answer: "axios_post sample_lib ''https://production.plaid.com/transactions/get''
        (transactions_request sample_lib sample_config (accessToken ?u)) =
      Inr \<lparr>resp_status = 200,
           resp_data = JObj [(''transactions'', JArr [JObj [(''amount'', JNum 12)]])]\<rparr>
    \<and> get_prop (resp_data \<lparr>resp_status = 200,
           resp_data = JObj [(''transactions'', JArr [JObj [(''amount'', JNum 12)]])]\<rparr>)
         ''transactions'' = Inr (JArr [JObj [(''amount'', JNum 12)]])"
    by (simp add: sample_lib_def)
  have date: "takeWhile (\<lambda>c. c \<noteq> CHR ''T'') (toISOString sample_lib) = ''2024-05-17''"
    by (simp add: sample_lib_def)
  from before fetch_transactions_token [OF auth, of sample_state]
  have a: "GET_fetch_transactions sample_lib sample_config sample_request sample_state =
      (\<lparr>status = 400, sent = Send (JStr ''No access token found.'')\<rparr>, sample_state)"
    by blast
  from after fetch_transactions_token [OF auth, of ?linked]
  have b: "requests (snd (GET_fetch_transactions sample_lib sample_config sample_request ?linked)) =
        requests ?linked @
          [(''https://production.plaid.com/transactions/get'',
            JObj [(''client_id'', env_value (PLAID_CLIENT_ID sample_config)),
                  (''secret'', env_value (PLAID_SECRET sample_config)),
                  (''access_token'', accessToken ?u),
                  (''start_date'', JStr ''2022-01-01''),
                  (''end_date'',
                     JStr (takeWhile (\<lambda>c. c \<noteq> CHR ''T'') (toISOString sample_lib)))])]"
    by blast
  from after answer fetch_transactions_token [OF auth, of ?linked]
  have c: "fst (GET_fetch_transactions sample_lib sample_config sample_request ?linked) =
      \<lparr>status = 200, sent = SendJson (JArr [JObj [(''amount'', JNum 12)]])\<rparr>"
    by blast
  have b': "requests (snd (GET_fetch_transactions sample_lib sample_config sample_request ?linked)) =
       [(''https://production.plaid.com/transactions/get'',
         JObj [(''client_id'', JStr ''client-1''),
               (''secret'', JStr ''secret-1''),
               (''access_token'', JStr ''access-1''),
               (''start_date'', JStr ''2022-01-01''),
               (''end_date'', JStr ''2024-05-17'')])]"
    unfolding b date by (simp add: sample_state_def sample_config_def env_value_def)
  from auth before after a b' c show ?thesis by simp
qed

section \<open>Properties of the proxy: exchanging the public token\<close>

text \<open>
  What a run of the exchange handler can do to the collection: nothing, or the one update
  of the first record with the identity's email, after the external call has succeeded
  and its body has given a token. The outage flag is never touched.
\<close>

lemma exchange_public_token_users:
  "users (snd (exchange_public_token L C req st)) = users st
   \<or> (\<exists>decoded public_token res tok.
         user req = Some decoded
         \<and> get_prop (body req) ''public_token'' = Inr public_token
         \<and> axios_post L (PLAID_ENV @ ''/item/public_token/exchange'')
             (exchange_request C public_token) = Inr res
         \<and> get_prop (resp_data res) ''access_token'' = Inr tok
         \<and> users (snd (exchange_public_token L C req st)) =
             snd (update_first (claim_email decoded) tok (users st)))"
  by (auto simp: exchange_public_token_def post_def findOneAndUpdate_def
        split: sum.splits option.splits prod.splits)

lemma exchange_public_token_connected:
  "connected (snd (exchange_public_token L C req st)) = connected st"
  by (auto simp: exchange_public_token_def post_def findOneAndUpdate_def
        split: sum.splits option.splits prod.splits)

lemma POST_exchange_public_token_cases:
  "POST_exchange_public_token L C req st = (r, st') \<Longrightarrow>
     st' = st
     \<or> (\<exists>decoded. authenticateJWT L C req = Next (req\<lparr>user := Some decoded\<rparr>)
           \<and> st' = snd (exchange_public_token L C (req\<lparr>user := Some decoded\<rparr>) st))"
  by (auto simp: POST_exchange_public_token_def protected_def authenticateJWT_def
        split: option.splits if_splits sum.splits)

text \<open>
  C6. For a request the middleware lets through with the identity \<open>decoded\<close>, whose call
  to the exchange endpoint succeeds with a body that gives the access token \<open>tok\<close>: when
  the store finds no record for the identity's email the answer is status 400 with
  \<open>User not found.\<close> and no record is written; when it finds the record \<open>u\<close>, the answer
  is status 200 with the fixed acknowledgement, the same whatever the token is, and a
  lookup by that email in the state left behind finds \<open>u\<close> with \<open>tok\<close> as its access
  token.
\<close>

theorem exchange_public_token_persists:
  assumes "authenticateJWT L C req = Next (req\<lparr>user := Some decoded\<rparr>)"
    and "get_prop (body req) ''public_token'' = Inr public_token"
    and "axios_post L (PLAID_ENV @ ''/item/public_token/exchange'')
           (exchange_request C public_token) = Inr res"
    and "get_prop (resp_data res) ''access_token'' = Inr tok"
  shows "(findOne st (claim_email decoded) = Inr None \<longrightarrow>
            fst (POST_exchange_public_token L C req st) =
              \<lparr>status = 400, sent = Send (JStr ''User not found.'')\<rparr>
            \<and> users (snd (POST_exchange_public_token L C req st)) = users st)
       \<and> (\<forall>u. findOne st (claim_email decoded) = Inr (Some u) \<longrightarrow>
            fst (POST_exchange_public_token L C req st) =
              \<lparr>status = 200,
               sent = SendJson (JObj [(''message'', JStr ''Token exchange successful'')])\<rparr>
            \<and> findOne (snd (POST_exchange_public_token L C req st)) (claim_email decoded) =
                Inr (Some (u\<lparr>accessToken := tok\<rparr>)))"
proof -
  let ?e = "claim_email decoded"
  let ?st1 = "st\<lparr>requests := requests st @
      [(PLAID_ENV @ ''/item/public_token/exchange'', exchange_request C public_token)]\<rparr>"
  have run: "POST_exchange_public_token L C req st =
      (case findOneAndUpdate ?st1 ?e tok of
         Inl error \<Rightarrow> (proxied_error L error, ?st1)
       | Inr (None, st2) \<Rightarrow> (\<lparr>status = 400, sent = Send (JStr ''User not found.'')\<rparr>, st2)
       | Inr (Some u, st2) \<Rightarrow>
           (\<lparr>status = 200,
             sent = SendJson (JObj [(''message'', JStr ''Token exchange successful'')])\<rparr>, st2))"
    using assms
    by (simp add: POST_exchange_public_token_def protected_def exchange_public_token_def post_def)
  have missing: "findOne st ?e = Inr None \<longrightarrow>
      fst (POST_exchange_public_token L C req st) =
        \<lparr>status = 400, sent = Send (JStr ''User not found.'')\<rparr>
      \<and> users (snd (POST_exchange_public_token L C req st)) = users st"
  proof
    assume "findOne st ?e = Inr None"
    then have c: "connected st" and f: "find (\<lambda>u. email u = ?e) (users st) = None"
      by (auto simp: findOne_def split: if_splits)
    from f have "update_first ?e tok (users st) = (None, users st)"
      using fst_update_first [of ?e tok "users st"] update_first_none [of ?e "users st" tok]
      by (cases "update_first ?e tok (users st)") simp
    with c show "fst (POST_exchange_public_token L C req st) =
        \<lparr>status = 400, sent = Send (JStr ''User not found.'')\<rparr>
      \<and> users (snd (POST_exchange_public_token L C req st)) = users st"
      by (simp add: run findOneAndUpdate_def)
  qed
  have found: "\<forall>u. findOne st ?e = Inr (Some u) \<longrightarrow>
      fst (POST_exchange_public_token L C req st) =
        \<lparr>status = 200,
         sent = SendJson (JObj [(''message'', JStr ''Token exchange successful'')])\<rparr>
      \<and> findOne (snd (POST_exchange_public_token L C req st)) ?e =
          Inr (Some (u\<lparr>accessToken := tok\<rparr>))"
  proof (intro allI impI)
    fix u
    assume "findOne st ?e = Inr (Some u)"
    then have c: "connected st" and f: "find (\<lambda>u. email u = ?e) (users st) = Some u"
      by (auto simp: findOne_def split: if_splits)
    obtain us where up: "update_first ?e tok (users st) = (Some (u\<lparr>accessToken := tok\<rparr>), us)"
      using f fst_update_first [of ?e tok "users st"]
      by (cases "update_first ?e tok (users st)") simp
    from find_update_first [of ?e tok "users st"] up
    have "find (\<lambda>u. email u = ?e) us = Some (u\<lparr>accessToken := tok\<rparr>)" by simp
    with c up show "fst (POST_exchange_public_token L C req st) =
        \<lparr>status = 200,
         sent = SendJson (JObj [(''message'', JStr ''Token exchange successful'')])\<rparr>
      \<and> findOne (snd (POST_exchange_public_token L C req st)) ?e =
          Inr (Some (u\<lparr>accessToken := tok\<rparr>))"
      by (simp add: run findOneAndUpdate_def findOne_def)
  qed
  show ?thesis by (rule conjI [OF missing found])
qed

theorem exchange_public_token_persists_witness:
  "authenticateJWT sample_lib sample_config sample_request =
     Next (sample_request\<lparr>user := Some (Claims ''a@x.com'')\<rparr>)
   \<and> get_prop (body sample_request) ''public_token'' = Inr (JStr ''public-1'')
   \<and> findOne sample_state ''a@x.com'' = Inr (Some alice)
   \<and> fst (POST_exchange_public_token sample_lib sample_config sample_request sample_state) =
       \<lparr>status = 200,
        sent = SendJson (JObj [(''message'', JStr ''Token exchange successful'')])\<rparr>
   \<and> findOne (snd (POST_exchange_public_token sample_lib sample_config sample_request
                     sample_state)) ''a@x.com'' =
       Inr (Some (alice\<lparr>accessToken := JStr ''access-1''\<rparr>))
   \<and> fst (POST_exchange_public_token sample_lib sample_config sample_request
             (sample_state\<lparr>users := []\<rparr>)) =
       \<lparr>status = 400, sent = Send (JStr ''User not found.'')\<rparr>"
proof -
  let ?res = "\<lparr>resp_status = 200, resp_data = JObj [(''access_token'', JStr ''access-1'')]\<rparr>"
  have auth: "authenticateJWT sample_lib sample_config sample_request =
      Next (sample_request\<lparr>user := Some (Claims ''a@x.com'')\<rparr>)"
    by (simp add: authenticateJWT_def sample_request_def sample_lib_def sample_config_def index_def)
  have pt: "get_prop (body sample_request) ''public_token'' = Inr (JStr ''public-1'')"
    by (simp add: sample_request_def)
  have ok: "axios_post sample_lib (PLAID_ENV @ ''/item/public_token/exchange'')
      (exchange_request sample_config (JStr ''public-1'')) = Inr ?res"
    by (simp add: sample_lib_def PLAID_ENV_def)
  have tok: "get_prop (resp_data ?res) ''access_token'' = Inr (JStr ''access-1'')"
    by simp
  have found: "findOne sample_state (claim_email (Claims ''a@x.com'')) = Inr (Some alice)"
    by (simp add: findOne_def sample_state_def alice_def)
  have missing: "findOne (sample_state\<lparr>users := []\<rparr>) (claim_email (Claims ''a@x.com'')) = Inr None"
    by (simp add: findOne_def sample_state_def)
  from found exchange_public_token_persists [OF auth pt ok tok, of sample_state]
  have a: "fst (POST_exchange_public_token sample_lib sample_config sample_request sample_state) =
        \<lparr>status = 200,
         sent = SendJson (JObj [(''message'', JStr ''Token exchange successful'')])\<rparr>
      \<and> findOne (snd (POST_exchange_public_token sample_lib sample_config sample_request
                        sample_state)) (claim_email (Claims ''a@x.com'')) =
          Inr (Some (alice\<lparr>accessToken := JStr ''access-1''\<rparr>))"
    by blast
  from missing exchange_public_token_persists [OF auth pt ok tok, of "sample_state\<lparr>users := []\<rparr>"]
  have b: "fst (POST_exchange_public_token sample_lib sample_config sample_request
                  (sample_state\<lparr>users := []\<rparr>)) =
      \<lparr>status = 400, sent = Send (JStr ''User not found.'')\<rparr>"
    by blast
  from auth pt found a b show ?thesis by simp
qed

text \<open>
  C10. Whatever the request, \<open>POST /exchange_public_token\<close> leaves the first name, the
  last name, the email and the password hash of every record as they were, adds and
  removes no record, and changes at most one record: the first one with the identity's
  email. When the call to the exchange endpoint fails, the collection after the request
  is the collection before it.
\<close>

theorem exchange_public_token_frame:
  "connected (snd (POST_exchange_public_token L C req st)) = connected st
   \<and> map (\<lambda>u. (firstName u, lastName u, email u, password u))
         (users (snd (POST_exchange_public_token L C req st)))
       = map (\<lambda>u. (firstName u, lastName u, email u, password u)) (users st)
   \<and> (\<forall>i<length (users st).
         users (snd (POST_exchange_public_token L C req st)) ! i \<noteq> users st ! i \<longrightarrow>
           (\<exists>decoded. authenticateJWT L C req = Next (req\<lparr>user := Some decoded\<rparr>)
              \<and> email (users st ! i) = claim_email decoded
              \<and> (\<forall>j<i. email (users st ! j) \<noteq> claim_email decoded)))
   \<and> (\<forall>public_token err.
         get_prop (body req) ''public_token'' = Inr public_token
         \<and> axios_post L (PLAID_ENV @ ''/item/public_token/exchange'')
             (exchange_request C public_token) = Inl err \<longrightarrow>
           users (snd (POST_exchange_public_token L C req st)) = users st)"
proof -
  let ?R = "POST_exchange_public_token L C req st"
  let ?core = "\<lambda>u. (firstName u, lastName u, email u, password u)"
  have "?R = (fst ?R, snd ?R)" by simp
  from POST_exchange_public_token_cases [OF this]
  consider (same) "snd ?R = st"
    | (ran) decoded where "authenticateJWT L C req = Next (req\<lparr>user := Some decoded\<rparr>)"
        "snd ?R = snd (exchange_public_token L C (req\<lparr>user := Some decoded\<rparr>) st)"
    by blast
  then show ?thesis
  proof cases
    case same
    then show ?thesis by simp
  next
    case ran
    let ?H = "exchange_public_token L C (req\<lparr>user := Some decoded\<rparr>) st"
    have conn: "connected (snd ?R) = connected st"
      by (simp add: ran(2) exchange_public_token_connected)
    from exchange_public_token_users [of L C "req\<lparr>user := Some decoded\<rparr>" st]
    consider (untouched) "users (snd ?H) = users st"
      | (updated) public_token res tok where
          "get_prop (body req) ''public_token'' = Inr public_token"
          "axios_post L (PLAID_ENV @ ''/item/public_token/exchange'')
             (exchange_request C public_token) = Inr res"
          "users (snd ?H) = snd (update_first (claim_email decoded) tok (users st))"
      by auto
    then show ?thesis
    proof cases
      case untouched
      with conn ran(2) show ?thesis by simp
    next
      case updated
      have us: "users (snd ?R) = snd (update_first (claim_email decoded) tok (users st))"
        by (simp add: ran(2) updated(3))
      have core: "map ?core (users (snd ?R)) = map ?core (users st)"
        unfolding us by (rule update_first_frame)
      have one: "\<forall>i<length (users st). users (snd ?R) ! i \<noteq> users st ! i \<longrightarrow>
          (\<exists>decoded. authenticateJWT L C req = Next (req\<lparr>user := Some decoded\<rparr>)
             \<and> email (users st ! i) = claim_email decoded
             \<and> (\<forall>j<i. email (users st ! j) \<noteq> claim_email decoded))"
      proof (intro allI impI)
        fix i
        assume "i < length (users st)" and "users (snd ?R) ! i \<noteq> users st ! i"
        then have "email (users st ! i) = claim_email decoded
            \<and> (\<forall>j<i. email (users st ! j) \<noteq> claim_email decoded)"
          unfolding us by (rule update_first_only_match)
        with ran(1) show "\<exists>decoded. authenticateJWT L C req = Next (req\<lparr>user := Some decoded\<rparr>)
             \<and> email (users st ! i) = claim_email decoded
             \<and> (\<forall>j<i. email (users st ! j) \<noteq> claim_email decoded)"
          by blast
      qed
      have failed: "\<forall>public_token err.
          get_prop (body req) ''public_token'' = Inr public_token
          \<and> axios_post L (PLAID_ENV @ ''/item/public_token/exchange'')
              (exchange_request C public_token) = Inl err \<longrightarrow>
            users (snd ?R) = users st"
        using updated(1,2) by auto
      show ?thesis by (rule conjI [OF conn conjI [OF core conjI [OF one failed]]])
    qed
  qed
qed

theorem exchange_public_token_frame_witness:
  "users (snd (POST_exchange_public_token sample_lib sample_config sample_request sample_state))
       = [alice\<lparr>accessToken := JStr ''access-1''\<rparr>]
   \<and> map (\<lambda>u. (firstName u, lastName u, email u, password u))
         (users (snd (POST_exchange_public_token sample_lib sample_config sample_request
                        sample_state)))
       = [(''Alice'', ''Ng'', ''a@x.com'', ''hash-of-p1'')]
   \<and> (\<exists>decoded. authenticateJWT sample_lib sample_config sample_request =
                   Next (sample_request\<lparr>user := Some decoded\<rparr>)
                 \<and> email (users sample_state ! 0) = claim_email decoded)
   \<and> axios_post offline_lib (PLAID_ENV @ ''/item/public_token/exchange'')
         (exchange_request sample_config (JStr ''public-1'')) =
       Inl (Error ''connect ECONNREFUSED'' None)
   \<and> users (snd (POST_exchange_public_token offline_lib sample_config sample_request
                    (sample_state\<lparr>users := [alice\<lparr>accessToken := JStr ''access-0''\<rparr>]\<rparr>)))
       = [alice\<lparr>accessToken := JStr ''access-0''\<rparr>]"
proof -
  let ?old = "sample_state\<lparr>users := [alice\<lparr>accessToken := JStr ''access-0''\<rparr>]\<rparr>"
  have ran: "users (snd (POST_exchange_public_token sample_lib sample_config sample_request
        sample_state)) = [alice\<lparr>accessToken := JStr ''access-1''\<rparr>]"
    by (simp add: POST_exchange_public_token_def protected_def exchange_public_token_def
          post_def findOneAndUpdate_def authenticateJWT_def exchange_request_def
          sample_request_def sample_lib_def sample_config_def sample_state_def alice_def
          index_def PLAID_ENV_def)
  have pt: "get_prop (body sample_request) ''public_token'' = Inr (JStr ''public-1'')"
    by (simp add: sample_request_def)
  have down: "axios_post offline_lib (PLAID_ENV @ ''/item/public_token/exchange'')
      (exchange_request sample_config (JStr ''public-1'')) =
    Inl (Error ''connect ECONNREFUSED'' None)"
    by (simp add: offline_lib_def)
  from exchange_public_token_frame [of sample_lib sample_config sample_request sample_state]
  have a: "map (\<lambda>u. (firstName u, lastName u, email u, password u))
        (users (snd (POST_exchange_public_token sample_lib sample_config sample_request
                       sample_state)))
      = map (\<lambda>u. (firstName u, lastName u, email u, password u)) (users sample_state)"
    by blast
  from pt down exchange_public_token_frame [of offline_lib sample_config sample_request ?old]
  have b: "users (snd (POST_exchange_public_token offline_lib sample_config sample_request ?old))
      = users ?old"
    by blast
  have changed: "0 < length (users sample_state)
      \<and> users (snd (POST_exchange_public_token sample_lib sample_config sample_request
                       sample_state)) ! 0 \<noteq> users sample_state ! 0"
    unfolding ran by (simp add: sample_state_def alice_def)
  from changed
    exchange_public_token_frame [of sample_lib sample_config sample_request sample_state]
  have c: "\<exists>decoded. authenticateJWT sample_lib sample_config sample_request =
        Next (sample_request\<lparr>user := Some decoded\<rparr>)
      \<and> email (users sample_state ! 0) = claim_email decoded"
    by blast
  from ran a b c down show ?thesis by (simp add: sample_state_def alice_def)
qed

section \<open>From registration to an authenticated request\<close>

text \<open>
  A registration that is answered with status 200 has appended one record: the names and
  the email of the request, the hash the library gave for the password, and no access
  token. A lookup by that email finds it.
\<close>

lemma find_snoc:
  "find P (xs @ [x]) = (case find P xs of Some y \<Rightarrow> Some y | None \<Rightarrow> if P x then Some x else None)"
  by (induction xs) auto

lemma signup_registers:
  assumes "signup L first_name last_name e secret st = (r, st')" and "status r = 200"
  shows "\<exists>hashed. bcrypt_hash L secret 10 = Inr hashed
           \<and> users st' = users st @ [\<lparr>firstName = first_name, lastName = last_name, email = e,
                                        password = hashed, accessToken = JUndefined\<rparr>]
           \<and> findOne st' e = Inr (Some \<lparr>firstName = first_name, lastName = last_name, email = e,
                                         password = hashed, accessToken = JUndefined\<rparr>)"
  using assms
  by (auto simp: signup_def findOne_def save_def server_error_def find_snoc
        split: sum.splits option.splits if_splits)

text \<open>
  The token a successful login returns is accepted by the middleware when it is presented
  as \<open>Bearer\<close>, a space and the token, and the identity attached is the email that logged
  in, provided the library's verifier gives back, under the same key, the payload its
  signer was given, and the token has no space in it. Both calls use the one
  \<open>JWT_SECRET\<close> of the process.
\<close>

lemma login_token_accepted:
  assumes "login L C e secret st = (\<lparr>status = 200, sent = Send (JObj [(''token'', JStr token)])\<rparr>, st')"
    and "\<And>payload t. jwt_sign L payload (JWT_SECRET C) = Inr t \<Longrightarrow>
           jwt_verify L (Some t) (JWT_SECRET C) = Inr payload"
    and "CHR '' '' \<notin> set token"
  shows "authenticateJWT L C (req\<lparr>header_Authorization := Some (''Bearer'' @ CHR '' '' # token)\<rparr>) =
           Next (req\<lparr>header_Authorization := Some (''Bearer'' @ CHR '' '' # token),
                      user := Some (Claims e)\<rparr>)"
proof -
  from assms(1) obtain u where u: "find (\<lambda>u. email u = e) (users st) = Some u"
    and sign: "jwt_sign L (Claims (email u)) (JWT_SECRET C) = Inr token"
    by (auto simp: login_def findOne_def server_error_def split: sum.splits option.splits if_splits)
  from u have "email u = e" by (auto simp: find_Some_iff)
  with sign assms(2) have ver: "jwt_verify L (Some token) (JWT_SECRET C) = Inr (Claims e)"
    by simp
  from assms(3) have nosp: "\<forall>x\<in>set token. x \<noteq> CHR '' ''" by auto
  have "CHR '' '' \<notin> set ''Bearer''" by simp
  from authenticateJWT_second_segment [OF this, where rest = token and L = L and C = C and req = req] ver nosp
  show ?thesis by (simp add: takeWhile_eq_all_conv [THEN iffD2])
qed

end
